theory Spec2Isabelle
  imports Complex_Main "HOL-Library.Monad_Syntax"
begin

section \<open>Values of the host language\<close>

text \<open>
  The program is JavaScript (\<^verbatim>\<open>src/server/lib/AutoLeveling.js\<close>). A number is an IEEE double:
  it is \<^verbatim>\<open>NaN\<close>, one of the two infinities, or finite. A finite number is modelled by its exact
  rational value; rounding to the nearest double is not modelled, and the negative zero is
  identified with zero. The values a coordinate, an aggregate or a G-code parameter can hold are
  \<^verbatim>\<open>undefined\<close>, \<^verbatim>\<open>null\<close> and the numbers.
\<close>

datatype jsnum = NaN | NegInfinity | Fin rat | Infinity

datatype jsval = Undefined | Null | Num jsnum

datatype error = TypeError | IOError

text \<open>\<^verbatim>\<open>ToNumber\<close>: \<^verbatim>\<open>undefined\<close> becomes \<^verbatim>\<open>NaN\<close>, \<^verbatim>\<open>null\<close> becomes 0.\<close>

fun ToNumber :: "jsval \<Rightarrow> jsnum" where
  "ToNumber Undefined = NaN"
| "ToNumber Null = Fin 0"
| "ToNumber (Num n) = n"

text \<open>
  \<^verbatim>\<open>Math.min\<close> and \<^verbatim>\<open>Math.max\<close> of two arguments: each argument is converted with
  \<^verbatim>\<open>ToNumber\<close>; the result is \<^verbatim>\<open>NaN\<close> as soon as one of them is.
\<close>

fun num_min :: "jsnum \<Rightarrow> jsnum \<Rightarrow> jsnum" where
  "num_min NaN _ = NaN"
| "num_min _ NaN = NaN"
| "num_min NegInfinity _ = NegInfinity"
| "num_min _ NegInfinity = NegInfinity"
| "num_min Infinity b = b"
| "num_min a Infinity = a"
| "num_min (Fin a) (Fin b) = Fin (min a b)"

fun num_max :: "jsnum \<Rightarrow> jsnum \<Rightarrow> jsnum" where
  "num_max NaN _ = NaN"
| "num_max _ NaN = NaN"
| "num_max Infinity _ = Infinity"
| "num_max _ Infinity = Infinity"
| "num_max NegInfinity b = b"
| "num_max a NegInfinity = a"
| "num_max (Fin a) (Fin b) = Fin (max a b)"

definition Math_min :: "jsval \<Rightarrow> jsval \<Rightarrow> jsval" where
  "Math_min a b = Num (num_min (ToNumber a) (ToNumber b))"

definition Math_max :: "jsval \<Rightarrow> jsval \<Rightarrow> jsval" where
  "Math_max a b = Num (num_max (ToNumber a) (ToNumber b))"

text \<open>
  \<^verbatim>\<open>v.toFixed(3)\<close>: a property read on \<^verbatim>\<open>undefined\<close> or \<^verbatim>\<open>null\<close> raises a \<^verbatim>\<open>TypeError\<close>; every
  number (also \<^verbatim>\<open>NaN\<close> and the infinities) has the method and it returns. The text it returns
  only goes to the debug log, which is not modelled.
\<close>

fun toFixed :: "jsval \<Rightarrow> error + unit" where
  "toFixed (Num n) = Inr ()"
| "toFixed Undefined = Inl TypeError"
| "toFixed Null = Inl TypeError"

section \<open>The leveling state\<close>

text \<open>A probed position \<^verbatim>\<open>{ x, y, z }\<close>; the fields are named as the log line names them.\<close>

record position =
  posX :: jsval
  posY :: jsval
  posZ :: jsval

record LevelingState =
  probePointCount :: nat
  probedPositions :: "position list"
  minZ :: jsval
  maxZ :: jsval

definition defaultState :: LevelingState where
  "defaultState =
     \<lparr>probePointCount = 0, probedPositions = [], minZ = Num (Fin 0), maxZ = Num (Fin 0)\<rparr>"

text \<open>\<^verbatim>\<open>setState\<close> replaces the state by a copy of its argument, \<^verbatim>\<open>resetState\<close> by the default.\<close>

definition setState :: "LevelingState \<Rightarrow> LevelingState \<Rightarrow> LevelingState" where
  "setState nextState s = nextState"

definition resetState :: "LevelingState \<Rightarrow> LevelingState" where
  "resetState s = setState defaultState s"

definition stop :: "LevelingState \<Rightarrow> LevelingState" where
  "stop s = resetState s"

section \<open>The probe-update handler\<close>

datatype event = probe_start | probe_update position | probe_end

text \<open>
  What a call of the handler leaves behind: the state, the events it emitted, in order, and the
  exception it raised, if any.
\<close>

record outcome =
  out_state :: LevelingState
  out_emitted :: "event list"
  out_raised :: "error option"

text \<open>
  The debug line of the handler formats \<^verbatim>\<open>pos.x\<close>, \<^verbatim>\<open>pos.y\<close>, \<^verbatim>\<open>pos.z\<close> and the two aggregates of
  the state with \<^verbatim>\<open>toFixed(3)\<close>, in this order; the first that raises ends the handler.
\<close>

definition log_probed :: "position \<Rightarrow> LevelingState \<Rightarrow> error + unit" where
  "log_probed pos s =
     (case toFixed (posX pos) of Inl e \<Rightarrow> Inl e | Inr _ \<Rightarrow>
      case toFixed (posY pos) of Inl e \<Rightarrow> Inl e | Inr _ \<Rightarrow>
      case toFixed (posZ pos) of Inl e \<Rightarrow> Inl e | Inr _ \<Rightarrow>
      case toFixed (minZ s) of Inl e \<Rightarrow> Inl e | Inr _ \<Rightarrow>
      toFixed (maxZ s))"

definition probeUpdate :: "position \<Rightarrow> LevelingState \<Rightarrow> outcome" where
  "probeUpdate pos s =
     (if length (probedPositions s) \<ge> probePointCount s
      then \<lparr>out_state = s, out_emitted = [], out_raised = None\<rparr>
      else
        let s' =
          (if length (probedPositions s) = 0
           then setState (s\<lparr>minZ := posZ pos, maxZ := posZ pos,
                            probedPositions := probedPositions s @ [pos]\<rparr>) s
           else setState (s\<lparr>minZ := Math_min (minZ s) (posZ pos),
                            maxZ := Math_max (maxZ s) (posZ pos),
                            probedPositions := probedPositions s @ [pos]\<rparr>) s)
        in case log_probed pos s' of
             Inl e \<Rightarrow> \<lparr>out_state = s', out_emitted = [], out_raised = Some e\<rparr>
           | Inr _ \<Rightarrow> \<lparr>out_state = s', out_emitted = [probe_end], out_raised = None\<rparr>)"

text \<open>The state after a sequence of updates, delivered one after the other.\<close>

fun deliver :: "position list \<Rightarrow> LevelingState \<Rightarrow> LevelingState" where
  "deliver [] s = s"
| "deliver (p # ps) s = deliver ps (out_state (probeUpdate p s))"

section \<open>Rendering values as text\<close>

text \<open>
  \<^verbatim>\<open>ToString\<close> of a value, as string concatenation and template literals apply it. An integer is
  rendered by its decimal digits, another finite number by the digits of its decimal expansion
  (at most 20 after the point). This is what the host prints for the integers up to \<^verbatim>\<open>2^53\<close> in
  magnitude and for the numbers from \<^verbatim>\<open>1e-6\<close> on that a short decimal literal denotes; the
  shortest-digits and exponent notations of the host for the others are not modelled.
\<close>

definition digit_char :: "nat \<Rightarrow> char" where
  "digit_char d = ''0123456789'' ! d"

fun nat_digits :: "nat \<Rightarrow> string" where
  "nat_digits n =
     (if n < 10 then [digit_char n] else nat_digits (n div 10) @ [digit_char (n mod 10)])"

declare nat_digits.simps [simp del]

fun frac_digits :: "nat \<Rightarrow> rat \<Rightarrow> string" where
  "frac_digits 0 r = []"
| "frac_digits (Suc k) r =
     (if r = 0 then []
      else let t = r * 10; d = nat \<lfloor>t\<rfloor>
           in digit_char d # frac_digits k (t - of_nat d))"

fun Number_toString :: "jsnum \<Rightarrow> string" where
  "Number_toString NaN = ''NaN''"
| "Number_toString Infinity = ''Infinity''"
| "Number_toString NegInfinity = ''-Infinity''"
| "Number_toString (Fin r) =
     (let a = \<bar>r\<bar>; n = nat \<lfloor>a\<rfloor>; f = a - of_nat n
      in (if r < 0 then ''-'' else []) @ nat_digits n
         @ (if f = 0 then [] else ''.'' @ frac_digits 20 f))"

fun ToString :: "jsval \<Rightarrow> string" where
  "ToString Undefined = ''undefined''"
| "ToString Null = ''null''"
| "ToString (Num n) = Number_toString n"

text \<open>\<^verbatim>\<open>Array.prototype.join\<close> on strings.\<close>

fun join :: "string \<Rightarrow> string list \<Rightarrow> string" where
  "join sep [] = []"
| "join sep [t] = t"
| "join sep (t # u # us) = t @ sep @ join sep (u # us)"

section \<open>The command synthesizer\<close>

text \<open>
  The parameter object is the list of its own properties, in the order the host enumerates
  them; for the letter keys every call site uses, that is the order of insertion. A call with
  no parameter object passes the empty list.
\<close>

type_synonym params = "(string \<times> jsval) list"

fun isNil :: "jsval \<Rightarrow> bool" where
  "isNil Undefined = True"
| "isNil Null = True"
| "isNil (Num n) = False"

definition omitBy :: "params \<Rightarrow> (jsval \<Rightarrow> bool) \<Rightarrow> params" where
  "omitBy ps pred = filter (\<lambda>(letter, value). \<not> pred value) ps"

definition gcode :: "string \<Rightarrow> params \<Rightarrow> string" where
  "gcode cmd ps =
     (let ps' = omitBy ps isNil;
          s = join '' '' (map (\<lambda>(letter, value). letter @ ToString value) ps')
      in if length s > 0 then cmd @ '' '' @ s else cmd)"

section \<open>Starting a session\<close>

record point =
  ptX :: jsval
  ptY :: jsval

record start_options =
  positions :: "point list"
  feedrate :: jsval
  probeFeedrate :: jsval
  startZ :: jsval
  endZ :: jsval

text \<open>A destructuring default applies when the property is \<^verbatim>\<open>undefined\<close>, and only then.\<close>

fun default_to :: "jsval \<Rightarrow> jsval \<Rightarrow> jsval" where
  "default_to d Undefined = d"
| "default_to d v = v"

text \<open>\<^verbatim>\<open>v / 2\<close>: the operand is converted with \<^verbatim>\<open>ToNumber\<close>.\<close>

definition halve :: "jsval \<Rightarrow> jsval" where
  "halve v = Num (case ToNumber v of Fin r \<Rightarrow> Fin (r / 2) | n \<Rightarrow> n)"

text \<open>The instructions pushed for the position at one index.\<close>

definition probe_point_gcodes :: "jsval \<Rightarrow> jsval \<Rightarrow> jsval \<Rightarrow> jsval \<Rightarrow> nat \<Rightarrow> point \<Rightarrow> string list"
  where
  "probe_point_gcodes feedrate' probeFeedrate' startZ' endZ' index position =
     gcode (''(Auto Leveling: probing point '' @ nat_digits index @ '')'') []
     # (if index = 0
        then [gcode ''G90'' [],
              gcode ''G0'' [(''Z'', startZ')],
              gcode ''G0'' [(''X'', ptX position), (''Y'', ptY position), (''F'', feedrate')],
              gcode ''G38.2'' [(''Z'', endZ'), (''F'', halve probeFeedrate')],
              gcode ''G0'' [(''Z'', startZ')]]
        else [gcode ''G90'' [],
              gcode ''G0'' [(''X'', ptX position), (''Y'', ptY position), (''F'', feedrate')],
              gcode ''G38.2'' [(''Z'', endZ'), (''F'', probeFeedrate')],
              gcode ''G0'' [(''Z'', startZ')]])"

text \<open>
  \<^verbatim>\<open>start\<close> returns the instructions and leaves the state reset, with the number of positions
  as the expected count. The optional callback receives the same list and is not modelled.
\<close>

definition start :: "start_options \<Rightarrow> LevelingState \<Rightarrow> string list \<times> LevelingState" where
  "start options s =
     (let probeFeedrate' = default_to (Num (Fin 20)) (probeFeedrate options);
          startZ' = default_to (Num (Fin 0)) (startZ options);
          endZ' = default_to (Num (Fin 0)) (endZ options);
          probeGCodes = concat (map (\<lambda>(index, position).
              probe_point_gcodes (feedrate options) probeFeedrate' startZ' endZ' index position)
            (enumerate 0 (positions options)));
          s1 = resetState s;
          s2 = setState (s1\<lparr>probePointCount := length (positions options)\<rparr>) s1
      in (probeGCodes, s2))"

section \<open>The height-map store\<close>

text \<open>
  A file system maps a path to what is there: nothing, a text file, or something on which every
  access faults. Reading succeeds on a text file only; writing creates or overwrites the file
  unless the path faults.
\<close>

datatype fs_entry = Missing | Data string | Faulty

type_synonym filesystem = "string \<Rightarrow> fs_entry"

definition readFileSync :: "filesystem \<Rightarrow> string \<Rightarrow> error + string" where
  "readFileSync fs filepath = (case fs filepath of Data d \<Rightarrow> Inr d | _ \<Rightarrow> Inl IOError)"


subsection \<open>Saving\<close>



subsection \<open>Text primitives of the loader\<close>

text \<open>
  Characters are bytes. The white space of \<^verbatim>\<open>\s\<close> and of \<^verbatim>\<open>trim\<close> is modelled by its ASCII
  members: tab, line feed, vertical tab, form feed, carriage return and space.
\<close>

definition is_space :: "char \<Rightarrow> bool" where
  "is_space c = (c \<in> set [CHR 0x09, CHR 0x0A, CHR 0x0B, CHR 0x0C, CHR 0x0D, CHR 0x20])"

definition is_digit :: "char \<Rightarrow> bool" where
  "is_digit c = (c \<in> set ''0123456789'')"

definition trim :: "string \<Rightarrow> string" where
  "trim s = rev (dropWhile is_space (rev (dropWhile is_space s)))"

text \<open>\<^verbatim>\<open>data.split('\n')\<close>: the pieces between the line feeds, empty pieces included.\<close>

function split_lines :: "string \<Rightarrow> string list" where
  "split_lines s =
     (case dropWhile (\<lambda>c. c \<noteq> CHR 0x0A) s of
        [] \<Rightarrow> [s]
      | _ # rest \<Rightarrow> takeWhile (\<lambda>c. c \<noteq> CHR 0x0A) s # split_lines rest)"
  by pat_completeness auto
termination
proof (relation "measure length")
  fix s :: string and c rest
  assume "dropWhile (\<lambda>c. c \<noteq> CHR 0x0A) s = c # rest"
  then have "length (c # rest) \<le> length s"
    by (metis length_dropWhile_le)
  then show "(rest, s) \<in> measure length" by simp
qed simp

declare split_lines.simps [simp del]

subsection \<open>The pattern of the loader\<close>

text \<open>
  The loader matches every line against \<^verbatim>\<open>/(-?\d*\.?\d+)?(\s+|$)/g\<close>. Group 1 consumes no white
  space and group 2 must start at a white-space character or at the end of the line, so group 1
  can only take part in a match when it is the whole run of non-space characters at the position
  tried. \<^verbatim>\<open>number_token\<close> says that such a run has the shape \<^verbatim>\<open>-?\d*\.?\d+\<close>.
\<close>

definition number_token :: "string \<Rightarrow> bool" where
  "number_token t =
     (let r = (case t of c # u \<Rightarrow> if c = CHR ''-'' then u else t | [] \<Rightarrow> t)
      in case dropWhile is_digit r of
           [] \<Rightarrow> r \<noteq> []
         | c # d \<Rightarrow> c = CHR ''.'' \<and> d \<noteq> [] \<and> list_all is_digit d)"

text \<open>
  One attempt of the pattern at the start of \<open>s\<close> (the rest of the line from the position
  tried): the text of group 1, if it took part, and the length of the whole match. The attempt
  fails on a run of non-space characters that is not a number token.
\<close>

definition match_here :: "string \<Rightarrow> (string option \<times> nat) option" where
  "match_here s =
     (let tok = takeWhile (\<lambda>c. \<not> is_space c) s;
          rest = dropWhile (\<lambda>c. \<not> is_space c) s
      in if number_token tok
         then Some (Some tok, length tok + length (takeWhile is_space rest))
         else if s = [] then Some (None, 0)
         else if is_space (hd s) then Some (None, length (takeWhile is_space s))
         else None)"

text \<open>
  \<^verbatim>\<open>line.matchAll(regex)\<close>, as the list of the texts of group 1: the search resumes where the
  last match ended, one character further after an empty match, and moves on by one character
  where an attempt fails. Beyond the end of the line there is no further match.
\<close>

function matchAll :: "string \<Rightarrow> string option list" where
  "matchAll s =
     (case match_here s of
        None \<Rightarrow> (if s = [] then [] else matchAll (tl s))
      | Some (g, n) \<Rightarrow>
          g # (if n = 0 then (if s = [] then [] else matchAll (tl s))
               else if s = [] then [] else matchAll (drop n s)))"
  by pat_completeness auto
termination
  by (relation "measure length") auto

declare matchAll.simps [simp del]

text \<open>
  \<^verbatim>\<open>Number(text)\<close> on a number token: the exact value of the decimal.
\<close>

definition digit_value :: "char \<Rightarrow> nat" where
  "digit_value c = of_char c - 48"

definition digits_value :: "string \<Rightarrow> nat" where
  "digits_value ds = foldl (\<lambda>a c. 10 * a + digit_value c) 0 ds"

definition Number_of :: "string \<Rightarrow> jsnum" where
  "Number_of t =
     (let neg = (case t of c # u \<Rightarrow> c = CHR ''-'' | [] \<Rightarrow> False);
          r = (if neg then tl t else t);
          ip = takeWhile is_digit r;
          fp = (case dropWhile is_digit r of [] \<Rightarrow> [] | c # d \<Rightarrow> d);
          v = of_nat (digits_value ip) + of_nat (digits_value fp) / 10 ^ length fp
      in Fin (if neg then - v else v))"

text \<open>Reading an index of an array that is too short gives \<^verbatim>\<open>undefined\<close>.\<close>

definition at_index :: "jsval list \<Rightarrow> nat \<Rightarrow> jsval" where
  "at_index vs i = (if i < length vs then vs ! i else Undefined)"

definition parse_line :: "string \<Rightarrow> position" where
  "parse_line line =
     (let values = map (\<lambda>g. case g of Some t \<Rightarrow> Num (Number_of t) | None \<Rightarrow> Undefined)
                       (matchAll line)
      in \<lparr>posX = at_index values 0, posY = at_index values 1, posZ = at_index values 2\<rparr>)"

subsection \<open>Loading\<close>

definition nonblank_lines :: "string \<Rightarrow> string list" where
  "nonblank_lines d = filter (\<lambda>line. length (trim line) > 0) (split_lines d)"

text \<open>The body of the loop over the lines, on the three variables it updates.\<close>

definition load_step ::
  "position list \<times> jsval \<times> jsval \<Rightarrow> string \<Rightarrow> position list \<times> jsval \<times> jsval" where
  "load_step acc line =
     (case acc of (probed, minZ', maxZ') \<Rightarrow>
        let p = parse_line line
        in (probed @ [p], Math_min (posZ p) minZ', Math_max (posZ p) maxZ'))"

definition loadProbedPositionsFromFile ::
  "filesystem \<Rightarrow> string \<Rightarrow> LevelingState \<Rightarrow> bool \<times> LevelingState" where
  "loadProbedPositionsFromFile fs filepath s =
     (case readFileSync fs filepath of
        Inl err \<Rightarrow> (False, s)
      | Inr d \<Rightarrow>
          let lines = nonblank_lines d;
              (probed, minZ', maxZ') = foldl load_step ([], Num Infinity, Num NegInfinity) lines
          in (True, setState (s\<lparr>probePointCount := length lines, probedPositions := probed,
                                 minZ := minZ', maxZ := maxZ'\<rparr>) s))"

section \<open>The grid planner\<close>

text \<open>
  The options of the planner are finite numbers or absent; an absent bound defaults to 0, an
  absent step to 10. The two loops may run forever, so each is a partial function in the option
  monad: \<open>None\<close> is a loop that never ends. The sums \<^verbatim>\<open>x += stepX\<close> and \<^verbatim>\<open>y += stepY\<close> are exact.
\<close>

record grid_options =
  startX :: "rat option"
  endX :: "rat option"
  stepX :: "rat option"
  startY :: "rat option"
  endY :: "rat option"
  stepY :: "rat option"

fun or_default :: "rat \<Rightarrow> rat option \<Rightarrow> rat" where
  "or_default d None = d"
| "or_default d (Some v) = v"

partial_function (option) loop_x ::
  "rat \<Rightarrow> rat \<Rightarrow> rat \<Rightarrow> rat \<Rightarrow> point list \<Rightarrow> point list option" where
  "loop_x endX' stepX' y x ps =
     (if x \<le> endX'
      then loop_x endX' stepX' y (x + stepX') (ps @ [\<lparr>ptX = Num (Fin x), ptY = Num (Fin y)\<rparr>])
      else Some ps)"

partial_function (option) loop_y ::
  "rat \<Rightarrow> rat \<Rightarrow> rat \<Rightarrow> rat \<Rightarrow> rat \<Rightarrow> rat \<Rightarrow> point list \<Rightarrow> point list option" where
  "loop_y startX' endX' stepX' endY' stepY' y ps =
     (if y \<le> endY'
      then do {
        ps' \<leftarrow> loop_x endX' stepX' y startX' ps;
        loop_y startX' endX' stepX' endY' stepY' (y + stepY') ps'
      }
      else Some ps)"

definition getProbeXYPositions :: "grid_options \<Rightarrow> point list option" where
  "getProbeXYPositions options =
     loop_y (or_default 0 (startX options)) (or_default 0 (endX options))
            (or_default 10 (stepX options))
            (or_default 0 (endY options)) (or_default 10 (stepY options))
            (or_default 0 (startY options)) []"

section \<open>Properties of the probe session\<close>

subsection \<open>Auxiliary facts about the handler\<close>

lemma probeUpdate_saturated:
  "probePointCount s \<le> length (probedPositions s) \<Longrightarrow>
   probeUpdate pos s = \<lparr>out_state = s, out_emitted = [], out_raised = None\<rparr>"
  by (simp add: probeUpdate_def)

lemma probeUpdate_state:
  "length (probedPositions s) < probePointCount s \<Longrightarrow>
   out_state (probeUpdate pos s) =
     s\<lparr>minZ := (if probedPositions s = [] then posZ pos else Math_min (minZ s) (posZ pos)),
       maxZ := (if probedPositions s = [] then posZ pos else Math_max (maxZ s) (posZ pos)),
       probedPositions := probedPositions s @ [pos]\<rparr>"
  by (simp add: probeUpdate_def setState_def Let_def split: sum.split)


lemma probeUpdate_count:
  "probePointCount (out_state (probeUpdate pos s)) = probePointCount s"
  by (simp add: probeUpdate_def setState_def Let_def split: sum.split)

lemma probeUpdate_length:
  "length (probedPositions (out_state (probeUpdate pos s))) =
     (if probePointCount s \<le> length (probedPositions s)
      then length (probedPositions s) else Suc (length (probedPositions s)))"
  by (simp add: probeUpdate_def setState_def Let_def split: sum.split)

lemma deliver_count: "probePointCount (deliver ps s) = probePointCount s"
  by (induction ps arbitrary: s) (simp_all add: probeUpdate_count)

lemma deliver_length:
  "length (probedPositions s) \<le> probePointCount s \<Longrightarrow>
   length (probedPositions (deliver ps s)) =
     min (probePointCount s) (length (probedPositions s) + length ps)"
proof (induction ps arbitrary: s)
  case Nil
  then show ?case by simp
next
  case (Cons p ps)
  let ?s = "out_state (probeUpdate p s)"
  have le: "length (probedPositions ?s) \<le> probePointCount ?s"
    using Cons.prems by (simp add: probeUpdate_count probeUpdate_length)
  show ?case
    using Cons.IH [OF le] Cons.prems
    by (simp add: probeUpdate_count probeUpdate_length)
qed

lemma deliver_appends:
  "length (probedPositions s) + length ps \<le> probePointCount s \<Longrightarrow>
   probedPositions (deliver ps s) = probedPositions s @ ps"
proof (induction ps arbitrary: s)
  case Nil
  then show ?case by simp
next
  case (Cons p ps)
  let ?s = "out_state (probeUpdate p s)"
  have lt: "length (probedPositions s) < probePointCount s"
    using Cons.prems by simp
  have st: "probedPositions ?s = probedPositions s @ [p]"
    by (simp add: probeUpdate_state [OF lt])
  have "length (probedPositions ?s) + length ps \<le> probePointCount ?s"
    using Cons.prems by (simp add: st probeUpdate_count)
  from Cons.IH [OF this] show ?case
    by (simp add: st)
qed





lemma start_state:
  "snd (start options s) =
     \<lparr>probePointCount = length (positions options), probedPositions = [],
      minZ = Num (Fin 0), maxZ = Num (Fin 0)\<rparr>"
  by (simp add: start_def Let_def resetState_def setState_def defaultState_def)

subsection \<open>Reset\<close>

text \<open>
  C1, as the claim states it, fails: after \<^verbatim>\<open>stop()\<close> the two aggregates are the number 0 of the
  frozen default state, not \<^verbatim>\<open>undefined\<close>.
\<close>

theorem stop_undefined_counterexample:
  "stop \<lparr>probePointCount = 1,
         probedPositions = [\<lparr>posX = Num (Fin 1), posY = Num (Fin 2), posZ = Num (Fin 3)\<rparr>],
         minZ = Num (Fin 3), maxZ = Num (Fin 3)\<rparr>
   \<noteq> \<lparr>probePointCount = 0, probedPositions = [], minZ = Undefined, maxZ = Undefined\<rparr>"
  by (simp add: stop_def resetState_def setState_def defaultState_def)

text \<open>
  C1 (as amended). For every prior state, \<^verbatim>\<open>stop()\<close> and the reset performed by \<^verbatim>\<open>start()\<close> set
  the state exactly to the default: no expected points, no samples, and both aggregates the
  number 0. \<^verbatim>\<open>start()\<close> then only sets the expected count to the number of positions.
\<close>

theorem stop_resets_to_default:
  "stop s = \<lparr>probePointCount = 0, probedPositions = [], minZ = Num (Fin 0), maxZ = Num (Fin 0)\<rparr>
   \<and> resetState s = stop s
   \<and> snd (start options s) = (stop s)\<lparr>probePointCount := length (positions options)\<rparr>"
  by (simp add: stop_def resetState_def setState_def defaultState_def start_def Let_def)

subsection \<open>Raising\<close>




subsection \<open>Saturation\<close>

text \<open>
  C4. In every state whose number of samples has reached the expected count, a further update
  leaves the whole state unchanged. In particular, after \<^verbatim>\<open>start\<close> with N positions and N
  updates the state holds N samples, and one more update changes nothing.
\<close>

theorem saturated_update_ignored:
  "(probePointCount s \<le> length (probedPositions s) \<longrightarrow>
      out_state (probeUpdate pos s) = s)
   \<and> (length ps = length (positions options) \<longrightarrow>
      length (probedPositions (deliver ps (snd (start options s0)))) = length (positions options)
      \<and> out_state (probeUpdate pos (deliver ps (snd (start options s0))))
          = deliver ps (snd (start options s0)))"
proof -
  let ?s1 = "snd (start options s0)"
  have c: "probePointCount ?s1 = length (positions options)" and e: "probedPositions ?s1 = []"
    by (simp_all add: start_state)
  have len: "length ps = length (positions options) \<Longrightarrow>
      length (probedPositions (deliver ps ?s1)) = length (positions options)"
    using deliver_length [of ?s1 ps] by (simp add: c e)
  have "length ps = length (positions options) \<Longrightarrow>
      probePointCount (deliver ps ?s1) \<le> length (probedPositions (deliver ps ?s1))"
    using len by (simp add: deliver_count c)
  then show ?thesis
    using len by (simp add: probeUpdate_saturated)
qed

theorem saturated_update_ignored_witness:
  "out_state (probeUpdate \<lparr>posX = Num (Fin 7), posY = Num (Fin 8), posZ = Num (Fin (-9))\<rparr>
      \<lparr>probePointCount = 1,
       probedPositions = [\<lparr>posX = Num (Fin 0), posY = Num (Fin 0), posZ = Num (Fin 1)\<rparr>],
       minZ = Num (Fin 1), maxZ = Num (Fin 1)\<rparr>)
   = \<lparr>probePointCount = 1,
       probedPositions = [\<lparr>posX = Num (Fin 0), posY = Num (Fin 0), posZ = Num (Fin 1)\<rparr>],
       minZ = Num (Fin 1), maxZ = Num (Fin 1)\<rparr>"
  using saturated_update_ignored [of
      "\<lparr>probePointCount = 1,
       probedPositions = [\<lparr>posX = Num (Fin 0), posY = Num (Fin 0), posZ = Num (Fin 1)\<rparr>],
       minZ = Num (Fin 1), maxZ = Num (Fin 1)\<rparr>"
      "\<lparr>posX = Num (Fin 7), posY = Num (Fin 8), posZ = Num (Fin (-9))\<rparr>"]
  by simp

subsection \<open>Aggregation\<close>

text \<open>
  C5. An update accepted by a session that still expects samples appends \<^verbatim>\<open>pos\<close>; the first one
  sets both aggregates to \<^verbatim>\<open>pos.z\<close>, a later one sets them to \<^verbatim>\<open>Math.min(minZ, pos.z)\<close> and
  \<^verbatim>\<open>Math.max(maxZ, pos.z)\<close>, which on finite numbers are the minimum and the maximum. Samples
  accumulate in delivery order. After \<^verbatim>\<open>start\<close> with three positions, the z-values 1, -2, 3
  give minZ = maxZ = 1 after the first update and minZ = -2, maxZ = 3 after all three.
\<close>

theorem min_max_aggregation:
  "(length (probedPositions s) < probePointCount s \<longrightarrow>
      out_state (probeUpdate pos s) =
        s\<lparr>minZ := (if probedPositions s = [] then posZ pos else Math_min (minZ s) (posZ pos)),
          maxZ := (if probedPositions s = [] then posZ pos else Math_max (maxZ s) (posZ pos)),
          probedPositions := probedPositions s @ [pos]\<rparr>)
   \<and> Math_min (Num (Fin a)) (Num (Fin b)) = Num (Fin (min a b))
   \<and> Math_max (Num (Fin a)) (Num (Fin b)) = Num (Fin (max a b))
   \<and> (length (probedPositions s) + length ps \<le> probePointCount s \<longrightarrow>
      probedPositions (deliver ps s) = probedPositions s @ ps)
   \<and> (length (positions options) = 3 \<longrightarrow>
      (let p1 = \<lparr>posX = x1, posY = y1, posZ = Num (Fin 1)\<rparr>;
           p2 = \<lparr>posX = x2, posY = y2, posZ = Num (Fin (- 2))\<rparr>;
           p3 = \<lparr>posX = x3, posY = y3, posZ = Num (Fin 3)\<rparr>;
           s1 = snd (start options s0)
       in deliver [p1] s1
            = \<lparr>probePointCount = 3, probedPositions = [p1],
               minZ = Num (Fin 1), maxZ = Num (Fin 1)\<rparr>
          \<and> deliver [p1, p2, p3] s1
            = \<lparr>probePointCount = 3, probedPositions = [p1, p2, p3],
               minZ = Num (Fin (- 2)), maxZ = Num (Fin 3)\<rparr>))"
proof -
  have run: "length (positions options) = 3 \<Longrightarrow>
      (let p1 = \<lparr>posX = x1, posY = y1, posZ = Num (Fin 1)\<rparr>;
           p2 = \<lparr>posX = x2, posY = y2, posZ = Num (Fin (- 2))\<rparr>;
           p3 = \<lparr>posX = x3, posY = y3, posZ = Num (Fin 3)\<rparr>;
           s1 = snd (start options s0)
       in deliver [p1] s1
            = \<lparr>probePointCount = 3, probedPositions = [p1],
               minZ = Num (Fin 1), maxZ = Num (Fin 1)\<rparr>
          \<and> deliver [p1, p2, p3] s1
            = \<lparr>probePointCount = 3, probedPositions = [p1, p2, p3],
               minZ = Num (Fin (- 2)), maxZ = Num (Fin 3)\<rparr>)"
    by (simp add: Let_def start_state probeUpdate_state Math_min_def Math_max_def)
  show ?thesis
    using run by (simp add: probeUpdate_state deliver_appends Math_min_def Math_max_def)
qed

theorem min_max_aggregation_witness:
  "deliver [\<lparr>posX = Num (Fin 0), posY = Num (Fin 0), posZ = Num (Fin 1)\<rparr>,
            \<lparr>posX = Num (Fin 10), posY = Num (Fin 0), posZ = Num (Fin (- 2))\<rparr>,
            \<lparr>posX = Num (Fin 20), posY = Num (Fin 0), posZ = Num (Fin 3)\<rparr>]
     (snd (start \<lparr>positions = [\<lparr>ptX = Num (Fin 0), ptY = Num (Fin 0)\<rparr>,
                               \<lparr>ptX = Num (Fin 10), ptY = Num (Fin 0)\<rparr>,
                               \<lparr>ptX = Num (Fin 20), ptY = Num (Fin 0)\<rparr>],
                  feedrate = Num (Fin 500), probeFeedrate = Undefined,
                  startZ = Num (Fin 5), endZ = Num (Fin (- 5))\<rparr> defaultState))
   = \<lparr>probePointCount = 3,
      probedPositions = [\<lparr>posX = Num (Fin 0), posY = Num (Fin 0), posZ = Num (Fin 1)\<rparr>,
            \<lparr>posX = Num (Fin 10), posY = Num (Fin 0), posZ = Num (Fin (- 2))\<rparr>,
            \<lparr>posX = Num (Fin 20), posY = Num (Fin 0), posZ = Num (Fin 3)\<rparr>],
      minZ = Num (Fin (- 2)), maxZ = Num (Fin 3)\<rparr>"
  using min_max_aggregation [of _ _ _ _ _
      "\<lparr>positions = [\<lparr>ptX = Num (Fin 0), ptY = Num (Fin 0)\<rparr>,
                               \<lparr>ptX = Num (Fin 10), ptY = Num (Fin 0)\<rparr>,
                               \<lparr>ptX = Num (Fin 20), ptY = Num (Fin 0)\<rparr>],
                  feedrate = Num (Fin 500), probeFeedrate = Undefined,
                  startZ = Num (Fin 5), endZ = Num (Fin (- 5))\<rparr>"
      "Num (Fin 0)" "Num (Fin 0)" "Num (Fin 10)" "Num (Fin 0)" "Num (Fin 20)" "Num (Fin 0)"
      defaultState]
  by (simp add: Let_def)

subsection \<open>The end-of-probe event\<close>




section \<open>Properties of the command synthesizer\<close>

lemma nat_digits_nonempty: "nat_digits n \<noteq> []"
  by (subst nat_digits.simps) simp

lemma Number_toString_nonempty: "Number_toString n \<noteq> []"
  by (cases n) (simp_all add: Let_def nat_digits_nonempty)

lemma ToString_nonempty: "ToString v \<noteq> []"
  by (cases v) (simp_all add: Number_toString_nonempty)

lemma join_Cons: "join sep (t # ts) = t @ concat (map (\<lambda>u. sep @ u) ts)"
  by (induction ts arbitrary: t) simp_all

lemma isNil_iff: "isNil v \<longleftrightarrow> v = Undefined \<or> v = Null"
  by (cases v) simp_all

lemma gcode_tokens:
  "gcode cmd ps =
     cmd @ concat (map (\<lambda>(letter, value). '' '' @ letter @ ToString value)
                       (filter (\<lambda>(letter, value). value \<noteq> Undefined \<and> value \<noteq> Null) ps))"
proof -
  let ?ps = "filter (\<lambda>(letter, value). value \<noteq> Undefined \<and> value \<noteq> Null) ps"
  have om: "omitBy ps isNil = ?ps"
    by (simp add: omitBy_def isNil_iff)
  let ?tok = "\<lambda>(letter, value). letter @ ToString value"
  have g: "gcode cmd ps =
      (if join '' '' (map ?tok ?ps) \<noteq> [] then cmd @ '' '' @ join '' '' (map ?tok ?ps) else cmd)"
    by (simp add: gcode_def om Let_def)
  show ?thesis
  proof (cases ?ps)
    case Nil
    then show ?thesis unfolding g by simp
  next
    case (Cons p qs)
    obtain letter v where p: "p = (letter, v)" by (cases p)
    have j: "join '' '' (map ?tok (p # qs)) = ?tok p @ concat (map (\<lambda>q. '' '' @ ?tok q) qs)"
      by (simp add: join_Cons comp_def)
    have c: "(\<lambda>q. '' '' @ ?tok q) = (\<lambda>(letter, value). '' '' @ letter @ ToString value)"
      by (auto simp: fun_eq_iff)
    have ne: "join '' '' (map ?tok (p # qs)) \<noteq> []"
      unfolding j by (simp add: p ToString_nonempty)
    have "gcode cmd ps = cmd @ '' '' @ join '' '' (map ?tok (p # qs))"
      using ne unfolding g Cons by simp
    also have "\<dots> = cmd @ concat (map (\<lambda>(letter, value). '' '' @ letter @ ToString value) (p # qs))"
      unfolding j c by (simp add: p)
    finally show ?thesis
      unfolding Cons .
  qed
qed

text \<open>
  C8. For every command and every parameter list, \<^verbatim>\<open>gcode\<close> returns the command followed, for
  each parameter whose value is neither \<^verbatim>\<open>null\<close> nor \<^verbatim>\<open>undefined\<close> and in the order of the
  parameters, by a space, the letter and the rendered value; the parameters without a value
  leave no trace, and the bare command is returned exactly when no parameter has a value.
\<close>

theorem gcode_renders_present_parameters:
  "gcode cmd ps =
     cmd @ concat (map (\<lambda>(letter, value). '' '' @ letter @ ToString value)
                       (filter (\<lambda>(letter, value). value \<noteq> Undefined \<and> value \<noteq> Null) ps))
   \<and> (gcode cmd ps = cmd \<longleftrightarrow> (\<forall>(letter, value) \<in> set ps. value = Undefined \<or> value = Null))"
proof -
  have "concat (map (\<lambda>(letter, value). '' '' @ letter @ ToString value)
                    (filter (\<lambda>(letter, value). value \<noteq> Undefined \<and> value \<noteq> Null) ps)) = []
        \<longleftrightarrow> (\<forall>(letter, value) \<in> set ps. value = Undefined \<or> value = Null)"
    by (auto simp: filter_empty_conv)
  then show ?thesis
    by (simp add: gcode_tokens)
qed

theorem gcode_renders_present_parameters_witness:
  "gcode ''G0'' [(''X'', Num (Fin 1)), (''Y'', Undefined), (''Z'', Null), (''F'', Num (Fin 500))]
     = ''G0 X1 F500''
   \<and> gcode ''G90'' [(''X'', Undefined), (''Y'', Null)] = ''G90''"
  using gcode_renders_present_parameters [of "''G0''"
      "[(''X'', Num (Fin 1)), (''Y'', Undefined), (''Z'', Null), (''F'', Num (Fin 500))]"]
    gcode_renders_present_parameters [of "''G90''" "[(''X'', Undefined), (''Y'', Null)]"]
  by (simp add: nat_digits.simps digit_char_def)

text \<open>
  C7. For a start with two positions, feedrate 500, probeFeedrate 20, startZ 5 and endZ -5, the
  instructions are: for point 0 the index marker, \<^verbatim>\<open>G90\<close>, the retract \<^verbatim>\<open>G0 Z5\<close>, the XY move
  with \<^verbatim>\<open>F500\<close>, the probe move \<^verbatim>\<open>G38.2 Z-5 F10\<close> at half the probe feed rate, and the retract
  \<^verbatim>\<open>G0 Z5\<close>; for point 1 the same without the leading retract, and with the probe move at the
  full rate, \<^verbatim>\<open>G38.2 Z-5 F20\<close>.
\<close>

theorem start_two_points:
  "fst (start \<lparr>positions = [p0, p1], feedrate = Num (Fin 500), probeFeedrate = Num (Fin 20),
               startZ = Num (Fin 5), endZ = Num (Fin (- 5))\<rparr> s)
   = [''(Auto Leveling: probing point 0)'',
      ''G90'',
      ''G0 Z5'',
      ''G0'' @ concat (map (\<lambda>(letter, value). '' '' @ letter @ ToString value)
                 (filter (\<lambda>(letter, value). value \<noteq> Undefined \<and> value \<noteq> Null)
                    [(''X'', ptX p0), (''Y'', ptY p0)])) @ '' F500'',
      ''G38.2 Z-5 F10'',
      ''G0 Z5'',
      ''(Auto Leveling: probing point 1)'',
      ''G90'',
      ''G0'' @ concat (map (\<lambda>(letter, value). '' '' @ letter @ ToString value)
                 (filter (\<lambda>(letter, value). value \<noteq> Undefined \<and> value \<noteq> Null)
                    [(''X'', ptX p1), (''Y'', ptY p1)])) @ '' F500'',
      ''G38.2 Z-5 F20'',
      ''G0 Z5'']"
  by (simp add: start_def Let_def probe_point_gcodes_def gcode_tokens halve_def
        nat_digits.simps digit_char_def)

theorem start_two_points_witness:
  "fst (start \<lparr>positions = [\<lparr>ptX = Num (Fin 0), ptY = Num (Fin 10)\<rparr>,
                             \<lparr>ptX = Num (Fin 20), ptY = Num (Fin 10)\<rparr>],
               feedrate = Num (Fin 500), probeFeedrate = Num (Fin 20),
               startZ = Num (Fin 5), endZ = Num (Fin (- 5))\<rparr> defaultState)
   = [''(Auto Leveling: probing point 0)'', ''G90'', ''G0 Z5'', ''G0 X0 Y10 F500'',
      ''G38.2 Z-5 F10'', ''G0 Z5'',
      ''(Auto Leveling: probing point 1)'', ''G90'', ''G0 X20 Y10 F500'',
      ''G38.2 Z-5 F20'', ''G0 Z5'']"
  using start_two_points [of "\<lparr>ptX = Num (Fin 0), ptY = Num (Fin 10)\<rparr>"
      "\<lparr>ptX = Num (Fin 20), ptY = Num (Fin 10)\<rparr>" defaultState]
  by (simp add: nat_digits.simps digit_char_def)

section \<open>Properties of the height-map store\<close>

lemma foldl_load_step:
  "foldl load_step (probed, mn, mx) lines =
     (probed @ map parse_line lines,
      foldl (\<lambda>m p. Math_min (posZ p) m) mn (map parse_line lines),
      foldl (\<lambda>m p. Math_max (posZ p) m) mx (map parse_line lines))"
  by (induction lines arbitrary: probed mn mx) (simp_all add: load_step_def Let_def)

lemma load_read_fails:
  "readFileSync fs filepath = Inl e \<Longrightarrow> loadProbedPositionsFromFile fs filepath s = (False, s)"
  by (simp add: loadProbedPositionsFromFile_def)

lemma load_read_succeeds:
  "readFileSync fs filepath = Inr d \<Longrightarrow>
   loadProbedPositionsFromFile fs filepath s =
     (True, \<lparr>probePointCount = length (nonblank_lines d),
             probedPositions = map parse_line (nonblank_lines d),
             minZ = foldl (\<lambda>m p. Math_min (posZ p) m) (Num Infinity)
                      (map parse_line (nonblank_lines d)),
             maxZ = foldl (\<lambda>m p. Math_max (posZ p) m) (Num NegInfinity)
                      (map parse_line (nonblank_lines d))\<rparr>)"
  by (simp add: loadProbedPositionsFromFile_def Let_def foldl_load_step setState_def)







lemma nonblank_lines_example:
  "nonblank_lines (''1 2 -3'' @ [CHR 0x0A, CHR 0x0A] @ ''4 5'' @ [CHR 0x0A])
     = [''1 2 -3'', ''4 5'']"
  by code_simp

lemma parse_line_example1:
  "parse_line ''1 2 -3'' = \<lparr>posX = Num (Fin 1), posY = Num (Fin 2), posZ = Num (Fin (- 3))\<rparr>"
  by code_simp

lemma parse_line_example2:
  "parse_line ''4 5'' = \<lparr>posX = Num (Fin 4), posY = Num (Fin 5), posZ = Undefined\<rparr>"
  by code_simp



text \<open>
  C10. When the read of \<^verbatim>\<open>load(path)\<close> fails, the operation returns false and the state is the one
  before the call. When the read succeeds, it returns true and the four fields of the state are
  replaced from the file alone: the count is the number of non-blank lines, the samples are the
  parsed lines, and the aggregates are the running \<^verbatim>\<open>Math.min\<close> and \<^verbatim>\<open>Math.max\<close> over the parsed
  z from \<^verbatim>\<open>Infinity\<close> and \<^verbatim>\<open>-Infinity\<close>; nothing of the prior state remains. A read either fails
  or succeeds.
\<close>

theorem load_result:
  "(readFileSync fs filepath = Inl e \<longrightarrow>
      loadProbedPositionsFromFile fs filepath s = (False, s))
   \<and> (readFileSync fs filepath = Inr d \<longrightarrow>
      loadProbedPositionsFromFile fs filepath s =
        (True, \<lparr>probePointCount = length (nonblank_lines d),
                probedPositions = map parse_line (nonblank_lines d),
                minZ = foldl (\<lambda>m p. Math_min (posZ p) m) (Num Infinity)
                         (map parse_line (nonblank_lines d)),
                maxZ = foldl (\<lambda>m p. Math_max (posZ p) m) (Num NegInfinity)
                         (map parse_line (nonblank_lines d))\<rparr>)
      \<and> loadProbedPositionsFromFile fs filepath s = loadProbedPositionsFromFile fs filepath s')
   \<and> ((\<exists>e. readFileSync fs filepath = Inl e) \<or> (\<exists>d. readFileSync fs filepath = Inr d))"
  by (auto simp: load_read_fails load_read_succeeds intro: sum.exhaust)

theorem load_result_witness:
  "loadProbedPositionsFromFile (\<lambda>p. Missing) ''heightmap.txt''
      \<lparr>probePointCount = 1,
       probedPositions = [\<lparr>posX = Num (Fin 1), posY = Num (Fin 2), posZ = Num (Fin 3)\<rparr>],
       minZ = Num (Fin 3), maxZ = Num (Fin 3)\<rparr>
    = (False, \<lparr>probePointCount = 1,
       probedPositions = [\<lparr>posX = Num (Fin 1), posY = Num (Fin 2), posZ = Num (Fin 3)\<rparr>],
       minZ = Num (Fin 3), maxZ = Num (Fin 3)\<rparr>)
   \<and> loadProbedPositionsFromFile
        ((\<lambda>p. Missing)(''heightmap.txt'' :=
            Data (''1 2 -3'' @ [CHR 0x0A, CHR 0x0A] @ ''4 5'' @ [CHR 0x0A])))
        ''heightmap.txt''
        \<lparr>probePointCount = 1,
         probedPositions = [\<lparr>posX = Num (Fin 1), posY = Num (Fin 2), posZ = Num (Fin 3)\<rparr>],
         minZ = Num (Fin 3), maxZ = Num (Fin 3)\<rparr>
    = (True, \<lparr>probePointCount = 2,
         probedPositions = [\<lparr>posX = Num (Fin 1), posY = Num (Fin 2), posZ = Num (Fin (- 3))\<rparr>,
                            \<lparr>posX = Num (Fin 4), posY = Num (Fin 5), posZ = Undefined\<rparr>],
         minZ = Num NaN, maxZ = Num NaN\<rparr>)"
  using load_result [where fs = "\<lambda>p. Missing" and filepath = "''heightmap.txt''" and e = IOError
        and s = "\<lparr>probePointCount = 1,
         probedPositions = [\<lparr>posX = Num (Fin 1), posY = Num (Fin 2), posZ = Num (Fin 3)\<rparr>],
         minZ = Num (Fin 3), maxZ = Num (Fin 3)\<rparr>"]
    load_result [where fs = "(\<lambda>p. Missing)(''heightmap.txt'' :=
            Data (''1 2 -3'' @ [CHR 0x0A, CHR 0x0A] @ ''4 5'' @ [CHR 0x0A]))"
        and filepath = "''heightmap.txt''"
        and d = "''1 2 -3'' @ [CHR 0x0A, CHR 0x0A] @ ''4 5'' @ [CHR 0x0A]"
        and s = "\<lparr>probePointCount = 1,
         probedPositions = [\<lparr>posX = Num (Fin 1), posY = Num (Fin 2), posZ = Num (Fin 3)\<rparr>],
         minZ = Num (Fin 3), maxZ = Num (Fin 3)\<rparr>"]
    nonblank_lines_example
  by (simp add: readFileSync_def parse_line_example1 parse_line_example2
        Math_min_def Math_max_def)

section \<open>Properties of the grid planner\<close>










lemma planner_example:
  "getProbeXYPositions \<lparr>startX = Some 0, endX = Some 20, stepX = Some 10,
                         startY = Some 0, endY = Some 10, stepY = Some 10\<rparr>
   = Some [\<lparr>ptX = Num (Fin 0), ptY = Num (Fin 0)\<rparr>, \<lparr>ptX = Num (Fin 10), ptY = Num (Fin 0)\<rparr>,
           \<lparr>ptX = Num (Fin 20), ptY = Num (Fin 0)\<rparr>, \<lparr>ptX = Num (Fin 0), ptY = Num (Fin 10)\<rparr>,
           \<lparr>ptX = Num (Fin 10), ptY = Num (Fin 10)\<rparr>, \<lparr>ptX = Num (Fin 20), ptY = Num (Fin 10)\<rparr>]"
  by (simp add: getProbeXYPositions_def loop_y.simps loop_x.simps)




end
